theory Spec2Isabelle
  imports Complex_Main
begin

section \<open>Date-planner agents: Planner, Executor, Verifier\<close>

text \<open>
  A shallow embedding of \<^verbatim>\<open>utils/helpers.py\<close>, \<^verbatim>\<open>utils/schemas.py\<close>,
  \<^verbatim>\<open>agents/planner_gemini.py\<close>, \<^verbatim>\<open>agents/executor.py\<close> and
  \<^verbatim>\<open>agents/verifier.py\<close>.

  Conventions of the model:
  \<^item> a Python \<^verbatim>\<open>str\<close> is a \<open>string\<close>, and the model is about ASCII text: the
    text functions below (\<open>lower\<close>, \<open>strip\<close>, \<open>py_int\<close>) treat the ASCII range as
    Python does and know no letter, digit or white space outside it;
  \<^item> a Python \<^verbatim>\<open>float\<close> is an exact rational (\<open>rat\<close>): comparisons, sums and the
    clamp are those of the source, rounding of the binary representation is outside the
    model, and the two places where a float is rendered as text take the rendering as a
    parameter (\<open>float_format\<close>);
  \<^item> a pydantic \<^verbatim>\<open>Literal[...]\<close> field is a datatype, an \<^verbatim>\<open>Optional\<close> field an
    \<open>option\<close>;
  \<^item> an exception is a value \<open>Inl e\<close> of a sum type;
  \<^item> logging, the wall-clock fields (\<^verbatim>\<open>timestamp\<close>, \<^verbatim>\<open>execution_time_seconds\<close>,
    \<^verbatim>\<open>created_at\<close>, \<^verbatim>\<open>verified_at\<close>) and the prompt text sent to the language model
    are not modelled.
\<close>

datatype exn =
    ValueError string
  | ValidationError string
  | ServiceError string

fun exn_str :: "exn \<Rightarrow> string" where
  "exn_str (ValueError m) = m"
| "exn_str (ValidationError m) = m"
| "exn_str (ServiceError m) = m"

subsection \<open>Text functions of the Python runtime\<close>

definition upper_letters :: string where
  "upper_letters = ''ABCDEFGHIJKLMNOPQRSTUVWXYZ''"

definition lower_letters :: string where
  "lower_letters = ''abcdefghijklmnopqrstuvwxyz''"

definition lower_char :: "char \<Rightarrow> char" where
  "lower_char c = (case map_of (zip upper_letters lower_letters) c of Some l \<Rightarrow> l | None \<Rightarrow> c)"

text \<open>\<^verbatim>\<open>s.lower()\<close>\<close>

definition lower :: "string \<Rightarrow> string" where
  "lower s = map lower_char s"

text \<open>
  The characters that \<^verbatim>\<open>str.strip()\<close> and \<^verbatim>\<open>int()\<close> skip: tab, line feed, vertical
  tab, form feed, carriage return, the separators 0x1C to 0x1F, and the space.
\<close>

definition is_space :: "char \<Rightarrow> bool" where
  "is_space c = (c \<in> set [CHR 0x09, CHR 0x0A, CHR 0x0B, CHR 0x0C, CHR 0x0D,
                           CHR 0x1C, CHR 0x1D, CHR 0x1E, CHR 0x1F, CHR 0x20])"

text \<open>\<^verbatim>\<open>s.strip()\<close>\<close>

definition strip :: "string \<Rightarrow> string" where
  "strip s = rev (dropWhile is_space (rev (dropWhile is_space s)))"









subsection \<open>utils/helpers.py\<close>

record coords =
  lat :: rat
  lon :: rat
  country :: string

definition city_coords :: "(string \<times> coords) list" where
  "city_coords =
     [(''mumbai'',    \<lparr>lat = 19.0760, lon = 72.8777, country = ''IN''\<rparr>),
      (''delhi'',     \<lparr>lat = 28.7041, lon = 77.1025, country = ''IN''\<rparr>),
      (''bangalore'', \<lparr>lat = 12.9716, lon = 77.5946, country = ''IN''\<rparr>),
      (''bengaluru'', \<lparr>lat = 12.9716, lon = 77.5946, country = ''IN''\<rparr>),
      (''pune'',      \<lparr>lat = 18.5204, lon = 73.8567, country = ''IN''\<rparr>),
      (''hyderabad'', \<lparr>lat = 17.3850, lon = 78.4867, country = ''IN''\<rparr>),
      (''chennai'',   \<lparr>lat = 13.0827, lon = 80.2707, country = ''IN''\<rparr>),
      (''kolkata'',   \<lparr>lat = 22.5726, lon = 88.3639, country = ''IN''\<rparr>),
      (''ahmedabad'', \<lparr>lat = 23.0225, lon = 72.5714, country = ''IN''\<rparr>),
      (''jaipur'',    \<lparr>lat = 26.9124, lon = 75.7873, country = ''IN''\<rparr>),
      (''goa'',       \<lparr>lat = 15.2993, lon = 74.1240, country = ''IN''\<rparr>)]"

definition extract_city_coordinates :: "string \<Rightarrow> coords" where
  "extract_city_coordinates city =
     (let city_key = strip (lower city)
      in case map_of city_coords city_key of
           Some c \<Rightarrow> c
         | None \<Rightarrow> \<lparr>lat = 0, lon = 0, country = ''UNKNOWN''\<rparr>)"






subsection \<open>utils/schemas.py\<close>

text \<open>
  A value of a \<^verbatim>\<open>Dict[str, Any]\<close> of step parameters: the scalars a plan carries.
\<close>

datatype pyval = PNone | PBool bool | PInt int | PFloat rat | PStr string

type_synonym params = "(string \<times> pyval) list"

text \<open>\<^verbatim>\<open>d.get(key, default)\<close>\<close>

definition dict_get :: "params \<Rightarrow> string \<Rightarrow> pyval \<Rightarrow> pyval" where
  "dict_get d k dflt = (case map_of d k of Some v \<Rightarrow> v | None \<Rightarrow> dflt)"

record plan_step =
  ps_id :: string
  ps_action :: string
  ps_params :: params
  ps_reasoning :: "string option"

record planner_output =
  plan_id :: string
  user_intent :: string
  steps :: "plan_step list"
  estimated_budget :: "rat option"
  safety_notes :: "string list"

record venue_result =
  name :: string
  address :: string
  rating :: "rat option"
  price_level :: "int option"
  open_now :: "bool option"
  opening_hours :: "string list option"
  phone :: "string option"
  website :: "string option"
  google_maps_url :: "string option"
  photos :: "string list"
  cuisine_type :: "string option"
  wheelchair_accessible :: "bool option"

record weather_result =
  temperature :: rat
  feels_like :: rat
  condition :: string
  description :: string
  humidity :: int
  wind_speed :: rat
  rain_probability :: "rat option"
  weather_suggestion :: string

record event_result =
  event_name :: string
  event_description :: "string option"
  start_time :: string
  end_time :: "string option"
  venue :: string
  ticket_url :: "string option"
  price :: "string option"
  event_category :: "string option"

record image_result =
  url :: string
  photographer :: string
  image_description :: "string option"

text \<open>
  The payload of a step result is a \<^verbatim>\<open>Dict[str, Any]\<close>. The model keeps what the code
  reads from it: the list under each of the keys \<^verbatim>\<open>"venues"\<close>, \<^verbatim>\<open>"events"\<close> and
  \<^verbatim>\<open>"images"\<close> (\<open>None\<close> when the key is absent; an entry is \<open>None\<close> when the schema
  constructor rejects it), the result of \<^verbatim>\<open>WeatherResult(**payload)\<close> (\<open>None\<close> when it
  raises), and the flag under \<^verbatim>\<open>"ready_for_composition"\<close>.
\<close>

record payload =
  venues_key :: "venue_result option list option"
  events_key :: "event_result option list option"
  images_key :: "image_result option list option"
  weather_fields :: "weather_result option"
  ready_for_composition :: "bool option"

text \<open>The empty dictionary \<^verbatim>\<open>{}\<close>.\<close>

definition empty_payload :: payload where
  "empty_payload =
     \<lparr>venues_key = None, events_key = None, images_key = None,
      weather_fields = None, ready_for_composition = None\<rparr>"

datatype step_status = St_success | St_failed | St_partial

record step_result =
  step_id :: string
  action :: string
  status :: step_status
  payload :: payload
  source :: string
  error_message :: "string option"

datatype overall = Ov_success | Ov_partial_success | Ov_failed

record executor_output =
  eo_plan_id :: string
  results :: "step_result list"
  overall_status :: overall




record timeline_entry =
  entry_time :: string
  activity :: string
  location :: "string option"
  duration_minutes :: "int option"
  entry_notes :: "string option"

record final_date_plan =
  title :: string
  summary :: string
  date_time :: string
  city :: string
  total_budget_estimate :: string
  venues :: "venue_result list"
  weather_forecast :: "weather_result option"
  nearby_events :: "event_result list"
  timeline :: "timeline_entry list"
  safety_checklist :: "string list"
  transportation_suggestions :: "string list"
  backup_plan :: "string option"
  venue_images :: "image_result list"


text \<open>\<^verbatim>\<open>DatePlanRequest\<close>, handed to the agents as \<^verbatim>\<open>request.model_dump()\<close>.\<close>

record request =
  req_city :: string
  budget_per_person :: "rat option"
  req_date_time :: string
  preferences :: "string option"
  dietary_restrictions :: "string list option"
  accessibility_needs :: "string option"

subsection \<open>agents/executor.py\<close>

text \<open>
  The three provider clients are external: each call may answer or raise, and may change
  the world \<open>'w\<close> it runs in. An executor is given its clients as a record of functions.
\<close>

record 'w services =
  get_forecast :: "pyval \<Rightarrow> pyval \<Rightarrow> pyval \<Rightarrow> 'w \<Rightarrow> (exn + weather_result option) \<times> 'w"
  search_venues ::
    "pyval \<Rightarrow> pyval \<Rightarrow> pyval \<Rightarrow> pyval \<Rightarrow> pyval \<Rightarrow> pyval \<Rightarrow> 'w \<Rightarrow> (exn + venue_result list) \<times> 'w"
  search_images :: "pyval \<Rightarrow> pyval \<Rightarrow> 'w \<Rightarrow> (exn + image_result list) \<times> 'w"

definition get_weather_step ::
  "'w services \<Rightarrow> plan_step \<Rightarrow> 'w \<Rightarrow> (exn + step_result) \<times> 'w" where
  "get_weather_step svc step w =
     (let latitude = dict_get (ps_params step) ''latitude'' (PInt 0);
          longitude = dict_get (ps_params step) ''longitude'' (PInt 0);
          target_datetime = dict_get (ps_params step) ''target_datetime'' PNone;
          (r, w') = get_forecast svc latitude longitude target_datetime w
      in case r of
           Inl e \<Rightarrow> (Inl e, w')
         | Inr (Some weather) \<Rightarrow>
             (Inr \<lparr>step_id = ps_id step, action = ps_action step, status = St_success,
                   payload = empty_payload\<lparr>weather_fields := Some weather\<rparr>,
                   source = ''openweather'', error_message = None\<rparr>, w')
         | Inr None \<Rightarrow>
             (Inr \<lparr>step_id = ps_id step, action = ps_action step, status = St_failed,
                   payload = empty_payload,
                   source = ''openweather'',
                   error_message = Some ''Failed to fetch weather data''\<rparr>, w'))"

definition search_venues_step ::
  "'w services \<Rightarrow> plan_step \<Rightarrow> 'w \<Rightarrow> (exn + step_result) \<times> 'w" where
  "search_venues_step svc step w =
     (let query = dict_get (ps_params step) ''query'' (PStr ''restaurant'');
          latitude = dict_get (ps_params step) ''latitude'' (PInt 0);
          longitude = dict_get (ps_params step) ''longitude'' (PInt 0);
          radius = dict_get (ps_params step) ''radius'' (PInt 3000);
          venue_type = dict_get (ps_params step) ''venue_type'' (PStr ''restaurant'');
          max_results = dict_get (ps_params step) ''max_results'' (PInt 5);
          (r, w') = search_venues svc query latitude longitude radius venue_type max_results w
      in case r of
           Inl e \<Rightarrow> (Inl e, w')
         | Inr vs \<Rightarrow>
             if vs \<noteq> []
             then (Inr \<lparr>step_id = ps_id step, action = ps_action step, status = St_success,
                        payload = empty_payload\<lparr>venues_key := Some (map Some vs)\<rparr>,
                        source = ''google_places'', error_message = None\<rparr>, w')
             else (Inr \<lparr>step_id = ps_id step, action = ps_action step, status = St_partial,
                        payload = empty_payload\<lparr>venues_key := Some []\<rparr>,
                        source = ''google_places'',
                        error_message = Some ''No venues found matching criteria''\<rparr>, w'))"

definition check_events_step ::
  "'w services \<Rightarrow> plan_step \<Rightarrow> 'w \<Rightarrow> (exn + step_result) \<times> 'w" where
  "check_events_step svc step w =
     (Inr \<lparr>step_id = ps_id step, action = ps_action step, status = St_success,
           payload = empty_payload\<lparr>events_key := Some []\<rparr>,
           source = ''events_placeholder'',
           error_message = Some ''Events API not integrated (placeholder)''\<rparr>, w)"

definition get_images_step ::
  "'w services \<Rightarrow> plan_step \<Rightarrow> 'w \<Rightarrow> (exn + step_result) \<times> 'w" where
  "get_images_step svc step w =
     (let query = dict_get (ps_params step) ''query'' (PStr ''romantic date'');
          count = dict_get (ps_params step) ''count'' (PInt 3);
          (r, w') = search_images svc query count w
      in case r of
           Inl e \<Rightarrow> (Inl e, w')
         | Inr imgs \<Rightarrow>
             if imgs \<noteq> []
             then (Inr \<lparr>step_id = ps_id step, action = ps_action step, status = St_success,
                        payload = empty_payload\<lparr>images_key := Some (map Some imgs)\<rparr>,
                        source = ''unsplash'', error_message = None\<rparr>, w')
             else (Inr \<lparr>step_id = ps_id step, action = ps_action step, status = St_partial,
                        payload = empty_payload\<lparr>images_key := Some []\<rparr>,
                        source = ''unsplash'', error_message = Some ''No images found''\<rparr>, w'))"

definition compose_final_step ::
  "'w services \<Rightarrow> plan_step \<Rightarrow> 'w \<Rightarrow> (exn + step_result) \<times> 'w" where
  "compose_final_step svc step w =
     (Inr \<lparr>step_id = ps_id step, action = ps_action step, status = St_success,
           payload = empty_payload\<lparr>ready_for_composition := Some True\<rparr>,
           source = ''executor'', error_message = None\<rparr>, w)"

text \<open>
  \<^verbatim>\<open>_execute_step\<close>: the body of the \<^verbatim>\<open>try\<close> is \<open>dispatch_step\<close>, the
  \<^verbatim>\<open>except Exception\<close> handler turns whatever it raised into a failed result.
\<close>

definition dispatch_step ::
  "'w services \<Rightarrow> plan_step \<Rightarrow> 'w \<Rightarrow> (exn + step_result) \<times> 'w" where
  "dispatch_step svc step w =
     (if ps_action step = ''get_weather'' then get_weather_step svc step w
      else if ps_action step = ''search_venues'' then search_venues_step svc step w
      else if ps_action step = ''check_events'' then check_events_step svc step w
      else if ps_action step = ''get_images'' then get_images_step svc step w
      else if ps_action step = ''compose_final'' then compose_final_step svc step w
      else (Inr \<lparr>step_id = ps_id step, action = ps_action step, status = St_failed,
                 payload = empty_payload, source = ''executor'',
                 error_message = Some (''Unknown action: '' @ ps_action step)\<rparr>, w))"

definition execute_step :: "'w services \<Rightarrow> plan_step \<Rightarrow> 'w \<Rightarrow> step_result \<times> 'w" where
  "execute_step svc step w =
     (case dispatch_step svc step w of
        (Inr r, w') \<Rightarrow> (r, w')
      | (Inl e, w') \<Rightarrow>
          (\<lparr>step_id = ps_id step, action = ps_action step, status = St_failed,
            payload = empty_payload, source = ''executor'',
            error_message = Some (exn_str e)\<rparr>, w'))"

text \<open>
  The selection at the head of \<^verbatim>\<open>execute\<close>: \<^verbatim>\<open>if retry_steps:\<close> is false for
  \<^verbatim>\<open>None\<close> and for the empty list.
\<close>

definition steps_to_execute :: "planner_output \<Rightarrow> string list option \<Rightarrow> plan_step list" where
  "steps_to_execute plan retry_steps =
     (case retry_steps of
        None \<Rightarrow> steps plan
      | Some ids \<Rightarrow>
          if ids \<noteq> [] then filter (\<lambda>s. ps_id s \<in> set ids) (steps plan) else steps plan)"

text \<open>The loop \<^verbatim>\<open>for step in steps_to_execute\<close>, one result appended per step.\<close>

fun run_steps :: "'w services \<Rightarrow> plan_step list \<Rightarrow> 'w \<Rightarrow> step_result list \<times> 'w" where
  "run_steps svc [] w = ([], w)"
| "run_steps svc (s # ss) w =
     (let (r, w1) = execute_step svc s w;
          (rs, w2) = run_steps svc ss w1
      in (r # rs, w2))"

text \<open>The block "Determine overall status" of \<^verbatim>\<open>execute\<close>.\<close>

definition determine_overall_status :: "step_result list \<Rightarrow> overall" where
  "determine_overall_status rs =
     (let success_count = length (filter (\<lambda>r. status r = St_success) rs)
      in if success_count = length rs then Ov_success
         else if success_count > 0 then Ov_partial_success
         else Ov_failed)"

definition execute ::
  "'w services \<Rightarrow> planner_output \<Rightarrow> string list option \<Rightarrow> 'w \<Rightarrow> executor_output \<times> 'w" where
  "execute svc plan retry_steps w =
     (let (rs, w') = run_steps svc (steps_to_execute plan retry_steps) w
      in (\<lparr>eo_plan_id = plan_id plan, results = rs,
           overall_status = determine_overall_status rs\<rparr>, w'))"

subsection \<open>agents/verifier.py\<close>



text \<open>Truth value of an optional string in a condition: set and not empty.\<close>

definition truthy_str :: "string option \<Rightarrow> bool" where
  "truthy_str s = (case s of None \<Rightarrow> False | Some t \<Rightarrow> t \<noteq> [])"



















subsection \<open>agents/planner_gemini.py\<close>

text \<open>
  The language model is external. What \<^verbatim>\<open>plan\<close> sees of it is the outcome of the first
  half of its \<^verbatim>\<open>try\<close> block (\<^verbatim>\<open>generate_content\<close>, removal of the code fence,
  \<^verbatim>\<open>json.loads\<close>): an exception, or the decoded object \<open>plan_data\<close>, whose four keys
  may each be absent. The second half, the construction of the \<^verbatim>\<open>PlannerOutput\<close>, is
  modelled: \<^verbatim>\<open>PlanStep(**step)\<close> raises when the action of a step is not one of the
  five of the schema.
\<close>

record plan_data =
  pd_user_intent :: "string option"
  pd_steps :: "plan_step list option"
  pd_estimated_budget :: "rat option option"
  pd_safety_notes :: "string list option"

text \<open>The \<^verbatim>\<open>Literal[...]\<close> of \<^verbatim>\<open>PlanStep.action\<close>.\<close>

definition action_enum :: "string list" where
  "action_enum = [''get_weather'', ''search_venues'', ''check_events'', ''get_images'', ''compose_final'']"

definition PlanStep :: "plan_step \<Rightarrow> exn + plan_step" where
  "PlanStep s =
     (if ps_action s \<in> set action_enum then Inr s
      else Inl (ValidationError (''action: unexpected value '' @ ps_action s)))"

text \<open>\<^verbatim>\<open>[PlanStep(**step) for step in ...]\<close>: the first rejected step raises.\<close>

fun PlanSteps :: "plan_step list \<Rightarrow> exn + plan_step list" where
  "PlanSteps [] = Inr []"
| "PlanSteps (s # ss) =
     (case PlanStep s of
        Inl e \<Rightarrow> Inl e
      | Inr s' \<Rightarrow> (case PlanSteps ss of Inl e \<Rightarrow> Inl e | Inr ss' \<Rightarrow> Inr (s' # ss')))"

definition create_fallback_plan ::
  "string \<Rightarrow> string \<Rightarrow> rat \<Rightarrow> rat \<Rightarrow> rat option \<Rightarrow> string option \<Rightarrow> planner_output" where
  "create_fallback_plan pid c la lo budget prefs =
     \<lparr>plan_id = pid,
      user_intent = ''Plan a date in '' @ c,
      steps =
        [\<lparr>ps_id = ''step_1'', ps_action = ''get_weather'',
          ps_params = [(''latitude'', PFloat la), (''longitude'', PFloat lo),
                       (''target_datetime'', PNone)],
          ps_reasoning = Some ''Check weather conditions for the date''\<rparr>,
         \<lparr>ps_id = ''step_2'', ps_action = ''search_venues'',
          ps_params = [(''query'', PStr (case prefs of
                                          None \<Rightarrow> ''restaurant''
                                        | Some t \<Rightarrow> if t \<noteq> [] then t @ '' restaurant''
                                                    else ''restaurant'')),
                       (''latitude'', PFloat la), (''longitude'', PFloat lo),
                       (''radius'', PInt 3000), (''venue_type'', PStr ''restaurant''),
                       (''max_results'', PInt 5)],
          ps_reasoning = Some ''Find suitable dining venues''\<rparr>,
         \<lparr>ps_id = ''step_3'', ps_action = ''get_images'',
          ps_params = [(''query'', PStr ''romantic restaurant dinner''), (''count'', PInt 3)],
          ps_reasoning = Some ''Get inspirational images''\<rparr>,
         \<lparr>ps_id = ''step_4'', ps_action = ''compose_final'',
          ps_params = [(''include_timeline'', PBool True), (''include_backup_plan'', PBool True)],
          ps_reasoning = Some ''Compose final date plan''\<rparr>],
      estimated_budget = budget,
      safety_notes =
        [''Choose a public, well-lit venue'',
         ''Share location with a trusted friend'',
         ''Arrange your own transportation'']\<rparr>"

text \<open>The body of the \<^verbatim>\<open>try\<close> block of \<^verbatim>\<open>plan\<close>.\<close>

definition llm_path ::
  "string \<Rightarrow> string \<Rightarrow> rat option \<Rightarrow> exn + plan_data \<Rightarrow> exn + planner_output" where
  "llm_path pid c budget llm =
     (case llm of
        Inl e \<Rightarrow> Inl e
      | Inr d \<Rightarrow>
          (case PlanSteps (case pd_steps d of None \<Rightarrow> [] | Some ss \<Rightarrow> ss) of
             Inl e \<Rightarrow> Inl e
           | Inr ss \<Rightarrow>
               Inr \<lparr>plan_id = pid,
                    user_intent = (case pd_user_intent d of
                                     None \<Rightarrow> ''Plan a date in '' @ c
                                   | Some u \<Rightarrow> u),
                    steps = ss,
                    estimated_budget = (case pd_estimated_budget d of
                                          None \<Rightarrow> budget
                                        | Some b \<Rightarrow> b),
                    safety_notes = (case pd_safety_notes d of None \<Rightarrow> [] | Some n \<Rightarrow> n)\<rparr>))"

text \<open>
  \<^verbatim>\<open>plan\<close>; \<open>pid\<close> is the identifier \<^verbatim>\<open>generate_plan_id()\<close> read off the clock.
\<close>

definition plan :: "string \<Rightarrow> exn + plan_data \<Rightarrow> request \<Rightarrow> planner_output" where
  "plan pid llm req =
     (let c = req_city req;
          budget = budget_per_person req;
          prefs = preferences req;
          city_coordinates = extract_city_coordinates c;
          la = lat city_coordinates;
          lo = lon city_coordinates
      in case llm_path pid c budget llm of
           Inr planner_out \<Rightarrow> planner_out
         | Inl e \<Rightarrow> create_fallback_plan pid c la lo budget prefs)"

subsection \<open>Fixtures of tests/test_flow.py\<close>

text \<open>The dash in the opening hours of the first venue is written as an ASCII hyphen.\<close>

definition sample_user_request :: request where
  "sample_user_request =
     \<lparr>req_city = ''Mumbai'', budget_per_person = Some 1500, req_date_time = ''Saturday 7pm'',
      preferences = Some ''vegetarian, romantic'',
      dietary_restrictions = Some [''vegetarian''], accessibility_needs = None\<rparr>"

definition mock_venue_results :: "venue_result list" where
  "mock_venue_results =
     [\<lparr>name = ''Test Restaurant 1'', address = ''123 Test Street, Mumbai'',
       rating = Some 4.5, price_level = Some 2, open_now = Some True,
       opening_hours = Some [''Monday: 11:00 AM - 11:00 PM'', ''Tuesday: 11:00 AM - 11:00 PM''],
       phone = Some ''+91-1234567890'', website = Some ''https://test-restaurant.com'',
       google_maps_url = Some ''https://maps.google.com/test'',
       photos = [''https://example.com/photo1.jpg''],
       cuisine_type = Some ''Indian'', wheelchair_accessible = Some True\<rparr>,
      \<lparr>name = ''Test Restaurant 2'', address = ''456 Test Avenue, Mumbai'',
       rating = Some 4.2, price_level = Some 2, open_now = Some True,
       opening_hours = None, phone = None, website = None,
       google_maps_url = Some ''https://maps.google.com/test2'',
       photos = [], cuisine_type = Some ''Continental'', wheelchair_accessible = Some False\<rparr>]"

definition mock_weather_result :: weather_result where
  "mock_weather_result =
     \<lparr>temperature = 28.5, feels_like = 30.0, condition = ''Clear'', description = ''Clear sky'',
      humidity = 65, wind_speed = 3.5, rain_probability = Some 10.0,
      weather_suggestion = ''Perfect weather for outdoor dining''\<rparr>"

definition mock_image_results :: "image_result list" where
  "mock_image_results =
     [\<lparr>url = ''https://images.unsplash.com/test1'', photographer = ''Test Photographer 1'',
       image_description = Some ''Romantic restaurant''\<rparr>,
      \<lparr>url = ''https://images.unsplash.com/test2'', photographer = ''Test Photographer 2'',
       image_description = Some ''Dinner date''\<rparr>]"

text \<open>The mocked clients of the tests: every call answers with the fixture, in a world without state.\<close>

definition mock_services :: "unit services" where
  "mock_services =
     \<lparr>get_forecast = (\<lambda>la lo t w. (Inr (Some mock_weather_result), w)),
      search_venues = (\<lambda>q la lo r vt m w. (Inr mock_venue_results, w)),
      search_images = (\<lambda>q c w. (Inr mock_image_results, w))\<rparr>"


text \<open>
  The clients of \<^verbatim>\<open>test_executor_handles_api_failures\<close>: the forecast call answers
  \<^verbatim>\<open>None\<close>, the other two answer with the fixtures.
\<close>

definition weather_down_services :: "unit services" where
  "weather_down_services = mock_services\<lparr>get_forecast := (\<lambda>la lo t w. (Inr None, w))\<rparr>"

text \<open>The plan of \<^verbatim>\<open>test_executor_executes_all_steps\<close>.\<close>

definition test_plan_123 :: planner_output where
  "test_plan_123 =
     \<lparr>plan_id = ''test_plan_123'', user_intent = ''Test date plan'',
      steps =
        [\<lparr>ps_id = ''step_1'', ps_action = ''get_weather'',
          ps_params = [(''latitude'', PFloat 19.0760), (''longitude'', PFloat 72.8777)],
          ps_reasoning = None\<rparr>,
         \<lparr>ps_id = ''step_2'', ps_action = ''search_venues'',
          ps_params = [(''query'', PStr ''restaurant''), (''latitude'', PFloat 19.0760),
                       (''longitude'', PFloat 72.8777), (''radius'', PInt 3000),
                       (''venue_type'', PStr ''restaurant''), (''max_results'', PInt 5)],
          ps_reasoning = None\<rparr>,
         \<lparr>ps_id = ''step_3'', ps_action = ''get_images'',
          ps_params = [(''query'', PStr ''restaurant''), (''count'', PInt 3)],
          ps_reasoning = None\<rparr>],
      estimated_budget = Some 1500, safety_notes = []\<rparr>"

text \<open>A plan without steps, as the verifier tests build it.\<close>

definition test_plan_empty :: planner_output where
  "test_plan_empty =
     \<lparr>plan_id = ''test_plan_empty'', user_intent = ''Test empty plan'', steps = [],
      estimated_budget = Some 1500, safety_notes = []\<rparr>"





text \<open>
  A reply of the language model that decodes, and whose only step carries an action the
  schema does not have.
\<close>

definition schema_violating_reply :: plan_data where
  "schema_violating_reply =
     \<lparr>pd_user_intent = Some ''Plan a date in Mumbai'',
      pd_steps = Some [\<lparr>ps_id = ''step_1'', ps_action = ''fetch_weather'',
                        ps_params = [(''latitude'', PFloat 19.0760), (''longitude'', PFloat 72.8777)],
                        ps_reasoning = Some ''Check weather''\<rparr>],
      pd_estimated_budget = Some (Some 3000),
      pd_safety_notes = Some [''Safety first'']\<rparr>"

subsection \<open>Names used by the specification\<close>

text \<open>
  The five action names as the specification lists them; the code's own are
  \<open>action_enum\<close>.
\<close>

definition spec_action_enum :: "string list" where
  "spec_action_enum = [''fetch_weather'', ''search_venues'', ''check_events'', ''fetch_images'', ''compose_final'']"






section \<open>Properties\<close>

subsection \<open>Executor: overall status\<close>

lemma filter_all_length: "(length (filter P xs) = length xs) = list_all P xs"
proof (induction xs)
  case Nil
  show ?case by simp
next
  case (Cons x xs)
  show ?case
  proof (cases "P x")
    case True
    with Cons show ?thesis by simp
  next
    case False
    have "length (filter P xs) \<noteq> Suc (length xs)"
      using length_filter_le [of P xs] by linarith
    with False show ?thesis by simp
  qed
qed

lemma filter_none_length: "(length (filter P xs) = 0) = list_all (\<lambda>x. \<not> P x) xs"
  by (induction xs) auto

lemma filter_some_length: "(0 < length (filter P xs)) = list_ex P xs"
  by (induction xs) auto

lemma filter_short_length: "(length (filter P xs) < length xs) = list_ex (\<lambda>x. \<not> P x) xs"
proof -
  have "length (filter P xs) \<le> length xs" by simp
  moreover have "(length (filter P xs) = length xs) = (\<not> list_ex (\<lambda>x. \<not> P x) xs)"
    by (simp add: filter_all_length list_all_iff list_ex_iff)
  ultimately show ?thesis by linarith
qed

lemma execute_overall:
  "overall_status (fst (execute svc p retry w)) =
     determine_overall_status (results (fst (execute svc p retry w)))"
  by (simp add: execute_def split: prod.splits)

text \<open>
  Claim C2, as the code has it. The overall status of a report is the one computed from its
  results; it is \<open>success\<close> exactly when every result has status \<open>success\<close> (so also
  for an empty list of results), \<open>failed\<close> exactly when there is at least one result and
  none has status \<open>success\<close>, and \<open>partial_success\<close> exactly when some result has
  status \<open>success\<close> and some result has not. In particular \<open>k\<close> successes among
  \<open>N\<close> results with \<open>0 < k < N\<close> give \<open>partial_success\<close>.
\<close>

theorem overall_status_rule:
  "overall_status (fst (execute svc p retry w)) =
     determine_overall_status (results (fst (execute svc p retry w)))
   \<and> (determine_overall_status rs = Ov_success
        \<longleftrightarrow> list_all (\<lambda>r. status r = St_success) rs)
   \<and> (determine_overall_status rs = Ov_failed
        \<longleftrightarrow> rs \<noteq> [] \<and> list_all (\<lambda>r. status r \<noteq> St_success) rs)
   \<and> (determine_overall_status rs = Ov_partial_success
        \<longleftrightarrow> list_ex (\<lambda>r. status r = St_success) rs \<and> list_ex (\<lambda>r. status r \<noteq> St_success) rs)
   \<and> (0 < length (filter (\<lambda>r. status r = St_success) rs)
        \<and> length (filter (\<lambda>r. status r = St_success) rs) < length rs
        \<longrightarrow> determine_overall_status rs = Ov_partial_success)"
proof -
  let ?k = "length (filter (\<lambda>r. status r = St_success) rs)"
  have all: "(?k = length rs) = list_all (\<lambda>r. status r = St_success) rs"
    by (rule filter_all_length)
  have none: "(?k = 0) = list_all (\<lambda>r. status r \<noteq> St_success) rs"
    by (rule filter_none_length)
  have some: "(0 < ?k) = list_ex (\<lambda>r. status r = St_success) rs"
    by (rule filter_some_length)
  have short: "(?k < length rs) = list_ex (\<lambda>r. status r \<noteq> St_success) rs"
    by (rule filter_short_length)
  have le: "?k \<le> length rs" by simp
  have s: "(determine_overall_status rs = Ov_success) = (?k = length rs)"
    by (simp add: determine_overall_status_def Let_def)
  have f: "(determine_overall_status rs = Ov_failed) = (?k \<noteq> length rs \<and> ?k = 0)"
    by (auto simp add: determine_overall_status_def Let_def)
  have p: "(determine_overall_status rs = Ov_partial_success) = (?k \<noteq> length rs \<and> 0 < ?k)"
    by (auto simp add: determine_overall_status_def Let_def)
  have f': "(?k \<noteq> length rs \<and> ?k = 0) = (rs \<noteq> [] \<and> ?k = 0)"
    by auto
  have p': "(?k \<noteq> length rs \<and> 0 < ?k) = (0 < ?k \<and> ?k < length rs)"
    using le by linarith
  have c2: "(determine_overall_status rs = Ov_success) = list_all (\<lambda>r. status r = St_success) rs"
    using s all by blast
  have c3: "(determine_overall_status rs = Ov_failed)
              = (rs \<noteq> [] \<and> list_all (\<lambda>r. status r \<noteq> St_success) rs)"
    using f f' none by blast
  have c4: "(determine_overall_status rs = Ov_partial_success)
              = (list_ex (\<lambda>r. status r = St_success) rs \<and> list_ex (\<lambda>r. status r \<noteq> St_success) rs)"
    using p p' some short by blast
  have c5: "0 < ?k \<and> ?k < length rs \<longrightarrow> determine_overall_status rs = Ov_partial_success"
    using p p' by blast
  from execute_overall [of svc p retry w] c2 c3 c4 c5 show ?thesis
    by blast
qed

text \<open>
  The rule at the report of the three-step test plan when the forecast call fails: one of
  three results is not a success, and the status is \<open>partial_success\<close>.
\<close>

theorem overall_status_rule_witness:
  "0 < length (filter (\<lambda>r. status r = St_success) (results (fst (execute weather_down_services test_plan_123 None ()))))
   \<and> length (filter (\<lambda>r. status r = St_success) (results (fst (execute weather_down_services test_plan_123 None ()))))
       < length (results (fst (execute weather_down_services test_plan_123 None ())))
   \<and> overall_status (fst (execute weather_down_services test_plan_123 None ())) = Ov_partial_success"
proof -
  let ?rs = "results (fst (execute weather_down_services test_plan_123 None ()))"
  have a: "0 < length (filter (\<lambda>r. status r = St_success) ?rs)" by code_simp
  have b: "length (filter (\<lambda>r. status r = St_success) ?rs) < length ?rs" by code_simp
  from overall_status_rule [of weather_down_services test_plan_123 None "()" ?rs] a b
  show ?thesis by simp
qed

text \<open>
  Claim C2 as stated fails on the report of a plan without steps: no result has status
  \<open>success\<close>, and the overall status is \<open>success\<close>, not \<open>failed\<close>.
\<close>

theorem overall_status_empty_counterexample:
  "results (fst (execute mock_services test_plan_empty None ())) = []
   \<and> list_all (\<lambda>r. status r \<noteq> St_success) (results (fst (execute mock_services test_plan_empty None ())))
   \<and> overall_status (fst (execute mock_services test_plan_empty None ())) = Ov_success
   \<and> overall_status (fst (execute mock_services test_plan_empty None ())) \<noteq> Ov_failed"
  by code_simp

subsection \<open>Executor: steps and selection\<close>

lemma get_weather_step_id:
  "get_weather_step svc s w = (Inr r, w') \<Longrightarrow> step_id r = ps_id s \<and> action r = ps_action s"
  by (auto simp add: get_weather_step_def Let_def split: prod.splits sum.splits option.splits)

lemma search_venues_step_id:
  "search_venues_step svc s w = (Inr r, w') \<Longrightarrow> step_id r = ps_id s \<and> action r = ps_action s"
  by (auto simp add: search_venues_step_def Let_def split: prod.splits sum.splits if_splits)

lemma check_events_step_id:
  "check_events_step svc s w = (Inr r, w') \<Longrightarrow> step_id r = ps_id s \<and> action r = ps_action s"
  by (auto simp add: check_events_step_def)

lemma get_images_step_id:
  "get_images_step svc s w = (Inr r, w') \<Longrightarrow> step_id r = ps_id s \<and> action r = ps_action s"
  by (auto simp add: get_images_step_def Let_def split: prod.splits sum.splits if_splits)

lemma compose_final_step_id:
  "compose_final_step svc s w = (Inr r, w') \<Longrightarrow> step_id r = ps_id s \<and> action r = ps_action s"
  by (auto simp add: compose_final_step_def)

lemma dispatch_step_id:
  "dispatch_step svc s w = (Inr r, w') \<Longrightarrow> step_id r = ps_id s \<and> action r = ps_action s"
  unfolding dispatch_step_def
  by (auto split: if_splits
           dest: get_weather_step_id search_venues_step_id check_events_step_id
                 get_images_step_id compose_final_step_id)

lemma execute_step_id:
  "step_id (fst (execute_step svc s w)) = ps_id s \<and> action (fst (execute_step svc s w)) = ps_action s"
proof (cases "dispatch_step svc s w")
  case (Pair r w')
  show ?thesis
  proof (cases r)
    case (Inl e)
    with Pair show ?thesis by (simp add: execute_step_def)
  next
    case (Inr res)
    with Pair dispatch_step_id [of svc s w res w'] show ?thesis
      by (simp add: execute_step_def)
  qed
qed

lemma run_steps_ids:
  "map step_id (fst (run_steps svc ss w)) = map ps_id ss
   \<and> map action (fst (run_steps svc ss w)) = map ps_action ss"
proof (induction ss arbitrary: w)
  case Nil
  show ?case by simp
next
  case (Cons s ss)
  obtain r w1 where e: "execute_step svc s w = (r, w1)" by (cases "execute_step svc s w")
  obtain rs w2 where rr: "run_steps svc ss w1 = (rs, w2)" by (cases "run_steps svc ss w1")
  from e execute_step_id [of svc s w] have "step_id r = ps_id s \<and> action r = ps_action s" by simp
  moreover from rr Cons.IH [of w1]
  have "map step_id rs = map ps_id ss \<and> map action rs = map ps_action ss" by simp
  ultimately show ?case using e rr by simp
qed

text \<open>
  Claim C8. \<^verbatim>\<open>execute\<close> with the empty retry list returns what it returns with no
  retry list, in the same world: the results are those of running every step of the plan in
  plan order, one result per step, carrying the identifiers and actions of the steps in
  that order.
\<close>

theorem empty_retry_list_runs_every_step:
  "execute svc p (Some []) w = execute svc p None w
   \<and> results (fst (execute svc p (Some []) w)) = fst (run_steps svc (steps p) w)
   \<and> map step_id (results (fst (execute svc p (Some []) w))) = map ps_id (steps p)
   \<and> map action (results (fst (execute svc p (Some []) w))) = map ps_action (steps p)"
proof -
  have sel: "steps_to_execute p (Some []) = steps p" "steps_to_execute p None = steps p"
    by (simp_all add: steps_to_execute_def)
  have same: "execute svc p (Some []) w = execute svc p None w"
    by (simp add: execute_def sel)
  have res: "results (fst (execute svc p (Some []) w)) = fst (run_steps svc (steps p) w)"
    by (simp add: execute_def sel split: prod.splits)
  from same res run_steps_ids [of svc "steps p" w] show ?thesis by simp
qed

text \<open>
  The three-step test plan with the empty retry list: the same report as with no list,
  and one result for each of the three steps.
\<close>

theorem empty_retry_list_runs_every_step_witness:
  "execute mock_services test_plan_123 (Some []) () = execute mock_services test_plan_123 None ()
   \<and> map step_id (results (fst (execute mock_services test_plan_123 (Some []) ())))
       = [''step_1'', ''step_2'', ''step_3'']"
proof -
  have "map ps_id (steps test_plan_123) = [''step_1'', ''step_2'', ''step_3'']"
    by (simp add: test_plan_123_def)
  moreover note empty_retry_list_runs_every_step [of mock_services test_plan_123 "()"]
  ultimately show ?thesis by metis
qed

text \<open>
  Claim C9. When no step is selected, \<^verbatim>\<open>execute\<close> returns a report without results
  whose overall status is \<open>success\<close>, and leaves the world as it was. No step is
  selected when the plan has no steps, and when a non-empty retry list names no step of
  the plan.
\<close>

theorem nothing_selected_reports_success:
  "(steps_to_execute p retry = [] \<longrightarrow>
      execute svc p retry w
        = (\<lparr>eo_plan_id = plan_id p, results = [], overall_status = Ov_success\<rparr>, w))
   \<and> (steps p = [] \<longrightarrow> steps_to_execute p retry = [])
   \<and> (ids \<noteq> [] \<and> list_all (\<lambda>s. ps_id s \<notin> set ids) (steps p)
        \<longrightarrow> steps_to_execute p (Some ids) = [])"
proof -
  have a: "steps_to_execute p retry = [] \<longrightarrow>
      execute svc p retry w
        = (\<lparr>eo_plan_id = plan_id p, results = [], overall_status = Ov_success\<rparr>, w)"
    by (simp add: execute_def determine_overall_status_def)
  have b: "steps p = [] \<longrightarrow> steps_to_execute p retry = []"
    by (simp add: steps_to_execute_def split: option.splits)
  have c: "ids \<noteq> [] \<and> list_all (\<lambda>s. ps_id s \<notin> set ids) (steps p)
        \<longrightarrow> steps_to_execute p (Some ids) = []"
    by (auto simp add: steps_to_execute_def list_all_iff filter_empty_conv)
  from a b c show ?thesis by blast
qed

text \<open>
  Both cases on the fixtures: the plan without steps, and the three-step plan retried on
  an identifier it does not have.
\<close>

theorem nothing_selected_reports_success_witness:
  "steps test_plan_empty = []
   \<and> execute mock_services test_plan_empty None ()
       = (\<lparr>eo_plan_id = ''test_plan_empty'', results = [], overall_status = Ov_success\<rparr>, ())
   \<and> [''step_9''] \<noteq> [] \<and> list_all (\<lambda>s. ps_id s \<notin> set [''step_9'']) (steps test_plan_123)
   \<and> steps test_plan_123 \<noteq> []
   \<and> execute mock_services test_plan_123 (Some [''step_9'']) ()
       = (\<lparr>eo_plan_id = ''test_plan_123'', results = [], overall_status = Ov_success\<rparr>, ())"
proof -
  have e: "steps test_plan_empty = []" by (simp add: test_plan_empty_def)
  have n: "list_all (\<lambda>s. ps_id s \<notin> set [''step_9'']) (steps test_plan_123)"
    by (simp add: test_plan_123_def)
  have ne: "steps test_plan_123 \<noteq> []" by (simp add: test_plan_123_def)
  have i1: "plan_id test_plan_empty = ''test_plan_empty''" by (simp add: test_plan_empty_def)
  have i2: "plan_id test_plan_123 = ''test_plan_123''" by (simp add: test_plan_123_def)
  from nothing_selected_reports_success [of test_plan_empty None mock_services "()" "[]"] e i1
  have r1: "execute mock_services test_plan_empty None ()
       = (\<lparr>eo_plan_id = ''test_plan_empty'', results = [], overall_status = Ov_success\<rparr>, ())"
    by simp
  from nothing_selected_reports_success [of test_plan_123 "Some [''step_9'']" mock_services "()" "[''step_9'']"] n i2
  have r2: "execute mock_services test_plan_123 (Some [''step_9'']) ()
       = (\<lparr>eo_plan_id = ''test_plan_123'', results = [], overall_status = Ov_success\<rparr>, ())"
    by simp
  from e n ne r1 r2 show ?thesis by simp
qed

text \<open>
  Claim C6, with the action names of the code. A step whose action is none of
  \<^verbatim>\<open>get_weather\<close>, \<^verbatim>\<open>search_venues\<close>, \<^verbatim>\<open>check_events\<close>, \<^verbatim>\<open>get_images\<close>,
  \<^verbatim>\<open>compose_final\<close> calls no client and yields a result (not an exception) with status
  \<open>failed\<close>, source \<^verbatim>\<open>executor\<close> and the message \<^verbatim>\<open>Unknown action: \<close> followed by
  the action.
\<close>

theorem unknown_action_fails:
  "ps_action step \<notin> set action_enum \<Longrightarrow>
   execute_step svc step w
     = (\<lparr>step_id = ps_id step, action = ps_action step, status = St_failed,
         payload = empty_payload, source = ''executor'',
         error_message = Some (''Unknown action: '' @ ps_action step)\<rparr>, w)"
  by (simp add: execute_step_def dispatch_step_def action_enum_def)

text \<open>
  The action \<^verbatim>\<open>fetch_weather\<close> of the specification is unknown to the executor.
\<close>

theorem unknown_action_fails_witness:
  "''fetch_weather'' \<notin> set action_enum
   \<and> execute_step mock_services
        \<lparr>ps_id = ''step_1'', ps_action = ''fetch_weather'', ps_params = [], ps_reasoning = None\<rparr> ()
     = (\<lparr>step_id = ''step_1'', action = ''fetch_weather'', status = St_failed,
         payload = empty_payload, source = ''executor'',
         error_message = Some ''Unknown action: fetch_weather''\<rparr>, ())"
proof -
  have h: "ps_action \<lparr>ps_id = ''step_1'', ps_action = ''fetch_weather'', ps_params = [],
                      ps_reasoning = None\<rparr> \<notin> set action_enum"
    by (simp add: action_enum_def)
  from unknown_action_fails [OF h, of mock_services "()"] h show ?thesis by simp
qed

text \<open>
  Claim C6 as stated fails: \<^verbatim>\<open>get_weather\<close> is not one of the five names the
  specification lists, and the executor runs the forecast handler on it, here with
  success and source \<^verbatim>\<open>openweather\<close>.
\<close>

theorem get_weather_outside_spec_enum_counterexample:
  "''get_weather'' \<notin> set spec_action_enum
   \<and> status (fst (execute_step mock_services
        \<lparr>ps_id = ''step_1'', ps_action = ''get_weather'', ps_params = [], ps_reasoning = None\<rparr> ()))
       = St_success
   \<and> source (fst (execute_step mock_services
        \<lparr>ps_id = ''step_1'', ps_action = ''get_weather'', ps_params = [], ps_reasoning = None\<rparr> ()))
       = ''openweather''
   \<and> error_message (fst (execute_step mock_services
        \<lparr>ps_id = ''step_1'', ps_action = ''get_weather'', ps_params = [], ps_reasoning = None\<rparr> ()))
       = None"
  by code_simp

subsection \<open>Safety checklist\<close>







subsection \<open>Planner: fallback plan\<close>

lemma PlanSteps_rejects:
  "list_ex (\<lambda>s. ps_action s \<notin> set action_enum) ss \<Longrightarrow> isl (PlanSteps ss)"
  by (induction ss) (auto simp add: PlanStep_def split: sum.splits)

lemma llm_path_fails:
  "isl llm \<Longrightarrow> isl (llm_path pid c b llm)"
  "llm = Inr d \<Longrightarrow>
   list_ex (\<lambda>s. ps_action s \<notin> set action_enum) (case pd_steps d of None \<Rightarrow> [] | Some ss \<Rightarrow> ss) \<Longrightarrow>
   isl (llm_path pid c b llm)"
proof -
  show "isl llm \<Longrightarrow> isl (llm_path pid c b llm)"
    by (cases llm) (simp_all add: llm_path_def)
next
  assume l: "llm = Inr d"
    and x: "list_ex (\<lambda>s. ps_action s \<notin> set action_enum)
              (case pd_steps d of None \<Rightarrow> [] | Some ss \<Rightarrow> ss)"
  from PlanSteps_rejects [OF x]
  obtain e where "PlanSteps (case pd_steps d of None \<Rightarrow> [] | Some ss \<Rightarrow> ss) = Inl e"
    by (auto simp add: isl_def)
  with l show "isl (llm_path pid c b llm)" by (simp add: llm_path_def)
qed

lemma plan_falls_back:
  "isl (llm_path pid (req_city req) (budget_per_person req) llm) \<Longrightarrow>
   plan pid llm req =
     create_fallback_plan pid (req_city req)
       (lat (extract_city_coordinates (req_city req)))
       (lon (extract_city_coordinates (req_city req)))
       (budget_per_person req) (preferences req)"
  by (auto simp add: plan_def Let_def isl_def)

text \<open>
  Claim C5, with the action names of the code. The body of the \<^verbatim>\<open>try\<close> block fails
  when the call or the decoding raised, and when a decoded step carries an action outside
  the schema. Whenever it fails, \<^verbatim>\<open>plan\<close> returns the fallback plan, which depends on
  the plan identifier, the city, the budget and the preferences only: four steps
  \<^verbatim>\<open>step_1\<close> to \<^verbatim>\<open>step_4\<close>, each accepted by the schema, with the actions \<^verbatim>\<open>get_weather\<close> (latitude and
  longitude of the city), \<^verbatim>\<open>search_venues\<close> (query: the preferences followed by
  \<^verbatim>\<open> restaurant\<close>, or \<^verbatim>\<open>restaurant\<close> alone when there are none), \<^verbatim>\<open>get_images\<close>
  (query \<^verbatim>\<open>romantic restaurant dinner\<close>) and \<^verbatim>\<open>compose_final\<close>, and the three fixed
  safety notes.
\<close>

theorem fallback_plan_on_llm_failure:
  "(isl llm \<longrightarrow> isl (llm_path pid (req_city req) (budget_per_person req) llm))
   \<and> (llm = Inr d
       \<and> list_ex (\<lambda>s. ps_action s \<notin> set action_enum) (case pd_steps d of None \<Rightarrow> [] | Some ss \<Rightarrow> ss)
       \<longrightarrow> isl (llm_path pid (req_city req) (budget_per_person req) llm))
   \<and> (isl (llm_path pid (req_city req) (budget_per_person req) llm) \<longrightarrow>
        plan pid llm req =
          create_fallback_plan pid (req_city req)
            (lat (extract_city_coordinates (req_city req)))
            (lon (extract_city_coordinates (req_city req)))
            (budget_per_person req) (preferences req)
        \<and> length (steps (plan pid llm req)) = 4
        \<and> map ps_id (steps (plan pid llm req)) = [''step_1'', ''step_2'', ''step_3'', ''step_4'']
        \<and> map ps_action (steps (plan pid llm req))
            = [''get_weather'', ''search_venues'', ''get_images'', ''compose_final'']
        \<and> map_of (ps_params (steps (plan pid llm req) ! 0)) ''latitude''
            = Some (PFloat (lat (extract_city_coordinates (req_city req))))
        \<and> map_of (ps_params (steps (plan pid llm req) ! 0)) ''longitude''
            = Some (PFloat (lon (extract_city_coordinates (req_city req))))
        \<and> map_of (ps_params (steps (plan pid llm req) ! 1)) ''query''
            = Some (PStr (if truthy_str (preferences req)
                          then the (preferences req) @ '' restaurant''
                          else ''restaurant''))
        \<and> map_of (ps_params (steps (plan pid llm req) ! 2)) ''query''
            = Some (PStr ''romantic restaurant dinner'')
        \<and> safety_notes (plan pid llm req)
            = [''Choose a public, well-lit venue'',
               ''Share location with a trusted friend'',
               ''Arrange your own transportation'']
        \<and> PlanSteps (steps (plan pid llm req)) = Inr (steps (plan pid llm req)))"
proof -
  let ?L = "llm_path pid (req_city req) (budget_per_person req) llm"
  let ?F = "create_fallback_plan pid (req_city req)
              (lat (extract_city_coordinates (req_city req)))
              (lon (extract_city_coordinates (req_city req)))
              (budget_per_person req) (preferences req)"
  have a: "isl llm \<longrightarrow> isl ?L" using llm_path_fails(1) by blast
  have b: "llm = Inr d
       \<and> list_ex (\<lambda>s. ps_action s \<notin> set action_enum) (case pd_steps d of None \<Rightarrow> [] | Some ss \<Rightarrow> ss)
       \<longrightarrow> isl ?L"
    using llm_path_fails(2) by blast
  have f1: "length (steps ?F) = 4" by (simp add: create_fallback_plan_def)
  have f2: "map ps_id (steps ?F) = [''step_1'', ''step_2'', ''step_3'', ''step_4'']"
    by (simp add: create_fallback_plan_def)
  have f3: "map ps_action (steps ?F)
            = [''get_weather'', ''search_venues'', ''get_images'', ''compose_final'']"
    by (simp add: create_fallback_plan_def)
  have f4: "map_of (ps_params (steps ?F ! 0)) ''latitude''
            = Some (PFloat (lat (extract_city_coordinates (req_city req))))"
    by (simp add: create_fallback_plan_def)
  have f5: "map_of (ps_params (steps ?F ! 0)) ''longitude''
            = Some (PFloat (lon (extract_city_coordinates (req_city req))))"
    by (simp add: create_fallback_plan_def)
  have f6: "map_of (ps_params (steps ?F ! 1)) ''query''
            = Some (PStr (if truthy_str (preferences req)
                          then the (preferences req) @ '' restaurant''
                          else ''restaurant''))"
    by (simp add: create_fallback_plan_def truthy_str_def split: option.splits)
  have f7: "map_of (ps_params (steps ?F ! 2)) ''query'' = Some (PStr ''romantic restaurant dinner'')"
    by (simp add: create_fallback_plan_def)
  have f8: "safety_notes ?F
            = [''Choose a public, well-lit venue'',
               ''Share location with a trusted friend'',
               ''Arrange your own transportation'']"
    by (simp add: create_fallback_plan_def)
  have f9: "PlanSteps (steps ?F) = Inr (steps ?F)"
    by (simp add: create_fallback_plan_def PlanStep_def action_enum_def)
  have c: "isl ?L \<longrightarrow> plan pid llm req = ?F" using plan_falls_back by blast
  show ?thesis
    using a b c f1 f2 f3 f4 f5 f6 f7 f8 f9 by presburger
qed


text \<open>
  Both kinds of failure on the request of the test fixtures: a call that raises, and a
  reply whose step has the action \<^verbatim>\<open>fetch_weather\<close>.
\<close>

theorem fallback_plan_on_llm_failure_witness:
  "isl (Inl (ServiceError ''API Error'') :: exn + plan_data)
   \<and> plan ''plan_20240210_190000'' (Inl (ServiceError ''API Error'')) sample_user_request
       = create_fallback_plan ''plan_20240210_190000'' ''Mumbai'' 19.0760 72.8777 (Some 1500)
           (Some ''vegetarian, romantic'')
   \<and> list_ex (\<lambda>s. ps_action s \<notin> set action_enum)
        (case pd_steps schema_violating_reply of None \<Rightarrow> [] | Some ss \<Rightarrow> ss)
   \<and> isl (llm_path ''plan_20240210_190000'' ''Mumbai'' (Some 1500) (Inr schema_violating_reply))
   \<and> map ps_action (steps (plan ''plan_20240210_190000'' (Inr schema_violating_reply) sample_user_request))
       = [''get_weather'', ''search_venues'', ''get_images'', ''compose_final'']
   \<and> map_of (ps_params (steps (plan ''plan_20240210_190000'' (Inr schema_violating_reply)
                                  sample_user_request) ! 0)) ''latitude''
       = Some (PFloat 19.0760)
   \<and> map_of (ps_params (steps (plan ''plan_20240210_190000'' (Inr schema_violating_reply)
                                  sample_user_request) ! 1)) ''query''
       = Some (PStr ''vegetarian, romantic restaurant'')
   \<and> length (steps (plan ''plan_20240210_190000'' (Inr schema_violating_reply)
                       sample_user_request)) = 4"
proof -
  let ?pid = "''plan_20240210_190000''"
  have c: "req_city sample_user_request = ''Mumbai''"
    and b: "budget_per_person sample_user_request = Some 1500"
    and pr: "preferences sample_user_request = Some ''vegetarian, romantic''"
    by (simp_all add: sample_user_request_def)
  have la: "lat (extract_city_coordinates ''Mumbai'') = 19.0760" by code_simp
  have lo: "lon (extract_city_coordinates ''Mumbai'') = 72.8777" by code_simp
  have q: "(if truthy_str (Some ''vegetarian, romantic'')
            then the (Some ''vegetarian, romantic'') @ '' restaurant'' else ''restaurant'')
           = ''vegetarian, romantic restaurant''"
    by (simp add: truthy_str_def)
  have i: "isl (Inl (ServiceError ''API Error'') :: exn + plan_data)" by simp
  have x: "list_ex (\<lambda>s. ps_action s \<notin> set action_enum)
             (case pd_steps schema_violating_reply of None \<Rightarrow> [] | Some ss \<Rightarrow> ss)"
    by (simp add: schema_violating_reply_def action_enum_def)
  note r1 = fallback_plan_on_llm_failure
      [of "Inl (ServiceError ''API Error'')" ?pid sample_user_request schema_violating_reply,
       unfolded c b pr la lo q]
  note r2 = fallback_plan_on_llm_failure
      [of "Inr schema_violating_reply" ?pid sample_user_request schema_violating_reply,
       unfolded c b pr la lo q]
  from r1 i have p1: "plan ?pid (Inl (ServiceError ''API Error'')) sample_user_request
       = create_fallback_plan ?pid ''Mumbai'' 19.0760 72.8777 (Some 1500)
           (Some ''vegetarian, romantic'')"
    by blast
  from r2 x have l2: "isl (llm_path ?pid ''Mumbai'' (Some 1500) (Inr schema_violating_reply))"
    by blast
  from r2 l2
  have p2: "map ps_action (steps (plan ?pid (Inr schema_violating_reply) sample_user_request))
              = [''get_weather'', ''search_venues'', ''get_images'', ''compose_final'']"
    by blast
  from r2 l2
  have p3: "map_of (ps_params (steps (plan ?pid (Inr schema_violating_reply)
                                  sample_user_request) ! 0)) ''latitude''
              = Some (PFloat 19.0760)"
    by blast
  from r2 l2
  have p4: "map_of (ps_params (steps (plan ?pid (Inr schema_violating_reply)
                                  sample_user_request) ! 1)) ''query''
       = Some (PStr ''vegetarian, romantic restaurant'')"
    by blast
  from r2 l2
  have p5: "length (steps (plan ?pid (Inr schema_violating_reply) sample_user_request)) = 4"
    by blast
  from i p1 x l2 p2 p3 p4 p5 show ?thesis by blast
qed

text \<open>
  Claim C5 as stated fails on the action names: the fallback plan of a failed call has
  the actions \<^verbatim>\<open>get_weather\<close> and \<^verbatim>\<open>get_images\<close>; no step of it has the action
  \<^verbatim>\<open>fetch_weather\<close> or \<^verbatim>\<open>fetch_images\<close>.
\<close>

theorem fallback_action_names_counterexample:
  "isl (Inl (ServiceError ''API Error'') :: exn + plan_data)
   \<and> map ps_action (steps (plan ''plan_20240210_190000'' (Inl (ServiceError ''API Error''))
                              sample_user_request))
       = [''get_weather'', ''search_venues'', ''get_images'', ''compose_final'']
   \<and> ''fetch_weather'' \<notin> set (map ps_action (steps (plan ''plan_20240210_190000''
                              (Inl (ServiceError ''API Error'')) sample_user_request)))
   \<and> ''fetch_images'' \<notin> set (map ps_action (steps (plan ''plan_20240210_190000''
                              (Inl (ServiceError ''API Error'')) sample_user_request)))"
  by code_simp

subsection \<open>Verifier: approval\<close>













subsection \<open>Verifier: final plan and retry recommendations\<close>







subsection \<open>Verifier: confidence score\<close>







subsection \<open>Verifier: budget warning without venues\<close>





end
